theory Spec2Isabelle
  imports Main
begin

section \<open>String primitives of the host language\<close>

text \<open>
  The quick fix of \<^verbatim>\<open>server/src/quickfixes.ts\<close> works on JavaScript strings with
  \<^verbatim>\<open>includes\<close>, \<^verbatim>\<open>indexOf\<close>, \<^verbatim>\<open>slice\<close> and a global regular-expression
  \<^verbatim>\<open>replace\<close>. Strings are modelled as \<^typ>\<open>string\<close>; one \<^typ>\<open>char\<close> stands for one
  UTF-16 code unit, so offsets and lengths agree with the source on ASCII text.
\<close>

fun startsWith :: "string \<Rightarrow> string \<Rightarrow> bool" where
  "startsWith s [] = True"
| "startsWith [] (p # ps) = False"
| "startsWith (c # cs) (p # ps) = (c = p \<and> startsWith cs ps)"

fun includes_str :: "string \<Rightarrow> string \<Rightarrow> bool" where
  "includes_str [] sub = (sub = [])"
| "includes_str (c # cs) sub = (startsWith (c # cs) sub \<or> includes_str cs sub)"

fun indexOfFrom :: "char \<Rightarrow> nat \<Rightarrow> string \<Rightarrow> int" where
  "indexOfFrom x i [] = - 1"
| "indexOfFrom x i (c # cs) = (if c = x then int i else indexOfFrom x (Suc i) cs)"

definition indexOf :: "string \<Rightarrow> char \<Rightarrow> int" where
  "indexOf s x = indexOfFrom x 0 s"

text \<open>
  \<^verbatim>\<open>s.slice(b, e)\<close>: a negative index counts from the end, both indices are clamped
  to the string, and an absent end index is the length.
\<close>

definition relativeIndex :: "nat \<Rightarrow> int \<Rightarrow> nat" where
  "relativeIndex len i = (if i < 0 then nat (max (int len + i) 0) else min (nat i) len)"

definition slice :: "string \<Rightarrow> int \<Rightarrow> int option \<Rightarrow> string" where
  "slice s b e =
     (let len = length s;
          fromIdx = relativeIndex len b;
          toIdx = (case e of None \<Rightarrow> len | Some i \<Rightarrow> relativeIndex len i)
      in take (toIdx - fromIdx) (drop fromIdx s))"

section \<open>The regular expression built from a variable name\<close>

text \<open>
  \<^verbatim>\<open>new RegExp(`\\b${variable.name}\\b`, 'g')\<close>. A variable name is a Solidity
  identifier, so its characters are letters, digits, \<^verbatim>\<open>_\<close> and \<^verbatim>\<open>$\<close>. In the pattern a
  letter, digit or underscore is a literal; \<^verbatim>\<open>$\<close> is the end-of-input assertion (the
  expression has no \<^verbatim>\<open>m\<close> flag); \<^verbatim>\<open>\b\<close> is the word-boundary assertion. Characters
  outside the identifier alphabet do not occur in names and are read as literals here.
\<close>

datatype atom = Lit char | WordBoundary | EndOfInput

definition isWordChar :: "char \<Rightarrow> bool" where
  "isWordChar c =
     (c \<in> set ''abcdefghijklmnopqrstuvwxyzABCDEFGHIJKLMNOPQRSTUVWXYZ0123456789_'')"

definition atomOfChar :: "char \<Rightarrow> atom" where
  "atomOfChar c = (if c = CHR ''$'' then EndOfInput else Lit c)"

definition variableRegExp :: "string \<Rightarrow> atom list" where
  "variableRegExp n = WordBoundary # map atomOfChar n @ [WordBoundary]"

text \<open>
  Matching a sequence of atoms at one position. \<open>prevWord\<close> says whether the
  character before the position is a word character (false at the start of the input);
  \<open>s\<close> is the input from the position on.
\<close>

fun nextWord :: "string \<Rightarrow> bool" where
  "nextWord [] = False"
| "nextWord (c # cs) = isWordChar c"

fun matchesAt :: "atom list \<Rightarrow> bool \<Rightarrow> string \<Rightarrow> bool" where
  "matchesAt [] prevWord s = True"
| "matchesAt (Lit x # as) prevWord [] = False"
| "matchesAt (Lit x # as) prevWord (c # cs) = (c = x \<and> matchesAt as (isWordChar c) cs)"
| "matchesAt (WordBoundary # as) prevWord s = (prevWord \<noteq> nextWord s \<and> matchesAt as prevWord s)"
| "matchesAt (EndOfInput # as) prevWord s = (s = [] \<and> matchesAt as prevWord s)"

fun matchLength :: "atom list \<Rightarrow> nat" where
  "matchLength [] = 0"
| "matchLength (Lit x # as) = Suc (matchLength as)"
| "matchLength (WordBoundary # as) = matchLength as"
| "matchLength (EndOfInput # as) = matchLength as"

text \<open>\<^verbatim>\<open>regex.test(s)\<close> from a given position: is there a match at or after it.\<close>

fun test :: "atom list \<Rightarrow> bool \<Rightarrow> string \<Rightarrow> bool" where
  "test re prevWord [] = matchesAt re prevWord []"
| "test re prevWord (c # cs) = (matchesAt re prevWord (c # cs) \<or> test re (isWordChar c) cs)"

lemma matchesAt_length: "matchesAt re w s \<Longrightarrow> matchLength re \<le> length s"
proof (induction re w s rule: matchesAt.induct)
qed auto

text \<open>
  \<^verbatim>\<open>s.replace(regex, newSubstr)\<close> with the \<^verbatim>\<open>g\<close> flag: scan from the left; at a match
  emit the replacement and continue after the matched text; after an empty match the
  scan advances by one character, which is copied.
\<close>

function replaceFrom :: "atom list \<Rightarrow> string \<Rightarrow> bool \<Rightarrow> string \<Rightarrow> string" where
  "replaceFrom re newSubstr prevWord s =
     (if matchesAt re prevWord s then
        (if matchLength re = 0 then
           (case s of
              [] \<Rightarrow> newSubstr
            | c # cs \<Rightarrow> newSubstr @ c # replaceFrom re newSubstr (isWordChar c) cs)
         else newSubstr @
              replaceFrom re newSubstr (isWordChar (s ! (matchLength re - 1)))
                (drop (matchLength re) s))
      else
        (case s of
           [] \<Rightarrow> []
         | c # cs \<Rightarrow> c # replaceFrom re newSubstr (isWordChar c) cs))"
  by pat_completeness auto
termination
proof (relation "measure (\<lambda>(re, newSubstr, prevWord, s). length s)")
  fix re :: "atom list" and newSubstr :: string and prevWord :: bool and s :: string
  assume "matchesAt re prevWord s" and "matchLength re \<noteq> 0"
  then have "0 < matchLength re" and "matchLength re \<le> length s"
    using matchesAt_length by auto
  then show "((re, newSubstr, isWordChar (s ! (matchLength re - 1)), drop (matchLength re) s),
              (re, newSubstr, prevWord, s))
             \<in> measure (\<lambda>(re, newSubstr, prevWord, s). length s)"
    by simp
qed auto

declare replaceFrom.simps [simp del]

text \<open>
  The replacement text is a replacement pattern: \<^verbatim>\<open>$$\<close> stands for one \<^verbatim>\<open>$\<close>. The
  expression has no capture group, and \<^verbatim>\<open>$&\<close>, \<^verbatim>\<open>$'\<close> and the backtick form cannot
  be spelled with identifier characters, so every other \<^verbatim>\<open>$\<close> is kept as it is.
\<close>

fun getSubstitution :: "string \<Rightarrow> string" where
  "getSubstitution (a # b # cs) =
     (if a = CHR ''$'' \<and> b = CHR ''$'' then CHR ''$'' # getSubstitution cs
      else a # getSubstitution (b # cs))"
| "getSubstitution cs = cs"

definition replace :: "string \<Rightarrow> atom list \<Rightarrow> string \<Rightarrow> string" where
  "replace s re newSubstr = replaceFrom re (getSubstitution newSubstr) False s"

section \<open>Documents, ranges and edits\<close>

text \<open>
  The values of the language-server protocol the fix is made of. A \<open>text_range\<close> is
  the parser's range of a node; of its two text indices only the UTF-16 offset is kept.
\<close>

record position =
  line :: nat
  character :: nat

record range =
  range_start :: position
  range_end :: position

record text_range =
  tr_start :: nat
  tr_end :: nat

record text_document =
  uri :: string
  getText :: string

record text_edit =
  edit_range :: range
  newText :: string

record workspace_edit =
  changes :: "(string \<times> text_edit list) list"

record 'd code_action =
  ca_title :: string
  ca_kind :: string
  ca_edit :: workspace_edit
  ca_diagnostics :: "'d list"

record variable =
  var_name :: string
  var_content :: string
  var_range :: range

record namespace =
  ns_contractName :: string
  ns_prefix :: string
  ns_variables :: "variable list"

datatype error = AssertionError | TypeError

section \<open>The concrete syntax tree and its cursor\<close>

text \<open>
  The parser is a library outside the repository. Its tree is modelled with the node
  kinds the fix asks for; every other kind is \<open>OtherNonterminal\<close> or
  \<open>OtherTerminal\<close>, tagged with a name. A terminal carries its text, trivia included.
\<close>

datatype nonterminal_kind =
  SourceUnit | ContractDefinition | FunctionBody | OtherNonterminal string

datatype terminal_kind =
  SingleLineNatSpecComment | CloseBrace | Identifier | OtherTerminal string

datatype node =
  TerminalNode terminal_kind string
| NonterminalNode nonterminal_kind "node list"

fun unparse :: "node \<Rightarrow> string" where
  "unparse (TerminalNode k t) = t"
| "unparse (NonterminalNode k children) = concat (map unparse children)"

text \<open>
  The nodes of a tree in depth-first pre-order, each with the offset of its first
  character in the document. A cursor visits nodes in this order.
\<close>

fun preorder :: "nat \<Rightarrow> node \<Rightarrow> (node \<times> nat) list"
  and preorderChildren :: "nat \<Rightarrow> node list \<Rightarrow> (node \<times> nat) list" where
  "preorder off (TerminalNode k t) = [(TerminalNode k t, off)]"
| "preorder off (NonterminalNode k children) =
     (NonterminalNode k children, off) # preorderChildren off children"
| "preorderChildren off [] = []"
| "preorderChildren off (c # cs) =
     preorder off c @ preorderChildren (off + length (unparse c)) cs"

text \<open>
  A cursor has a root it cannot leave, a current node, and the nodes still ahead of it
  within the root. A search that runs out of nodes climbs back to the root and
  completes the cursor. \<open>spawn\<close> starts a new cursor rooted at the current node and
  keeps the node's offset in the document.
\<close>

record cursor =
  cursor_root :: "node \<times> nat"
  cursor_current :: "node \<times> nat"
  cursor_upcoming :: "(node \<times> nat) list"
  cursor_completed :: bool

definition cursorAt :: "node \<times> nat \<Rightarrow> cursor" where
  "cursorAt e =
     \<lparr>cursor_root = e, cursor_current = e,
      cursor_upcoming = tl (preorder (snd e) (fst e)), cursor_completed = False\<rparr>"

definition spawn :: "cursor \<Rightarrow> cursor" where
  "spawn c = cursorAt (cursor_current c)"

definition node :: "cursor \<Rightarrow> node" where
  "node c = fst (cursor_current c)"

definition textRange :: "cursor \<Rightarrow> text_range" where
  "textRange c =
     \<lparr>tr_start = snd (cursor_current c),
      tr_end = snd (cursor_current c) + length (unparse (node c))\<rparr>"

definition goToNextMatching :: "(node \<Rightarrow> bool) \<Rightarrow> cursor \<Rightarrow> bool \<times> cursor" where
  "goToNextMatching P c =
     (if cursor_completed c then (False, c)
      else case dropWhile (\<lambda>e. \<not> P (fst e)) (cursor_upcoming c) of
             [] \<Rightarrow> (False, c\<lparr>cursor_current := cursor_root c, cursor_upcoming := [],
                               cursor_completed := True\<rparr>)
           | e # es \<Rightarrow> (True, c\<lparr>cursor_current := e, cursor_upcoming := es\<rparr>))"

fun isNonterminalWithKind :: "nonterminal_kind \<Rightarrow> node \<Rightarrow> bool" where
  "isNonterminalWithKind k (NonterminalNode k' children) = (k' = k)"
| "isNonterminalWithKind k (TerminalNode k' t) = False"

fun isTerminalWithKind :: "terminal_kind \<Rightarrow> node \<Rightarrow> bool" where
  "isTerminalWithKind k (TerminalNode k' t) = (k' = k)"
| "isTerminalWithKind k (NonterminalNode k' children) = False"

definition goToNextNonterminalWithKind :: "nonterminal_kind \<Rightarrow> cursor \<Rightarrow> bool \<times> cursor" where
  "goToNextNonterminalWithKind k c = goToNextMatching (isNonterminalWithKind k) c"

definition goToNextTerminalWithKind :: "terminal_kind \<Rightarrow> cursor \<Rightarrow> bool \<times> cursor" where
  "goToNextTerminalWithKind k c = goToNextMatching (isTerminalWithKind k) c"

record parse_output =
  isValid :: bool
  tree :: node

definition createTreeCursor :: "parse_output \<Rightarrow> cursor" where
  "createTreeCursor parseOutput = cursorAt (tree parseOutput, 0)"

section \<open>The collaborators of the quick fix\<close>

text \<open>
  What \<^verbatim>\<open>quickfixes.ts\<close> imports and calls: the parser's \<^verbatim>\<open>language.parse\<close>, the name
  of a contract definition (\<^verbatim>\<open>new ContractDefinition(node).name.text\<close>),
  \<^verbatim>\<open>getNamespaceId\<close> and \<^verbatim>\<open>printNamespaceTemplate\<close> of \<^verbatim>\<open>./namespace\<close>, and
  \<^verbatim>\<open>slangToVSCodeRange\<close> of \<^verbatim>\<open>./helpers/slang\<close>. Their code is not in the source
  files at hand, so they are parameters of the model. The model starts once the
  language object exists: \<^verbatim>\<open>getSolidityVersion\<close> and the \<^verbatim>\<open>Language\<close> constructor,
  which run before the first parse, are not part of it.
\<close>

record env =
  parse :: "nonterminal_kind \<Rightarrow> string \<Rightarrow> parse_output"
  contractDefinitionName :: "node \<Rightarrow> string"
  getNamespaceId :: "string \<Rightarrow> string \<Rightarrow> string"
  printNamespaceTemplate :: "namespace \<Rightarrow> string"
  slangToVSCodeRange :: "text_document \<Rightarrow> text_range \<Rightarrow> range"

section \<open>Rewriting one function body\<close>

text \<open>
  The body of the loop of \<^verbatim>\<open>editNamespaceVariablesInFunctions\<close> that computes the new
  text of one function body: every variable in turn replaces its matches by
  \<^verbatim>\<open>$.name\<close> in the text the earlier variables produced; then the accessor line is
  inserted after the first opening brace when the text changed and does not contain
  the line.
\<close>

definition expectedLine :: "string \<Rightarrow> string" where
  "expectedLine contractName =
     contractName @ ''Storage storage $ = _get'' @ contractName @ ''Storage();''"

definition replaceVariable :: "string \<Rightarrow> variable \<Rightarrow> string" where
  "replaceVariable replacement v =
     replace replacement (variableRegExp (var_name v)) (''$.'' @ var_name v)"

definition replaceVariables :: "variable list \<Rightarrow> string \<Rightarrow> string" where
  "replaceVariables variables functionText = foldl replaceVariable functionText variables"

definition insertExpectedLine :: "string \<Rightarrow> string \<Rightarrow> string" where
  "insertExpectedLine contractName replacement =
     (let openingBracketIndex = indexOf replacement CHR ''{''
      in slice replacement 0 (Some openingBracketIndex)
         @ [CHR ''{'', CHR 0x0A] @ ''        '' @ expectedLine contractName @ [CHR 0x0A]
         @ slice replacement (openingBracketIndex + 1) None)"

definition rewriteFunctionText :: "string \<Rightarrow> variable list \<Rightarrow> string \<Rightarrow> string" where
  "rewriteFunctionText contractName variables functionText =
     (let replacement = replaceVariables variables functionText
      in if replacement \<noteq> functionText
            \<and> \<not> includes_str replacement (expectedLine contractName)
         then insertExpectedLine contractName replacement
         else replacement)"

section \<open>The quick fix\<close>

lemma goToNextMatching_upcoming:
  "fst (goToNextMatching P c) \<Longrightarrow>
   length (cursor_upcoming (snd (goToNextMatching P c))) < length (cursor_upcoming c)"
proof -
  assume found: "fst (goToNextMatching P c)"
  let ?rest = "dropWhile (\<lambda>e. \<not> P (fst e)) (cursor_upcoming c)"
  have le: "length ?rest \<le> length (cursor_upcoming c)"
    by (rule length_dropWhile_le)
  show ?thesis
  proof (cases ?rest)
    case Nil
    with found show ?thesis
      by (simp add: goToNextMatching_def del: dropWhile_eq_Nil_conv split: if_splits)
  next
    case (Cons e es)
    with found le show ?thesis
      by (simp add: goToNextMatching_def split: if_splits)
  qed
qed

text \<open>
  \<^verbatim>\<open>editNamespaceVariablesInFunctions\<close>: the loop over the function bodies ahead of
  the cursor. Every body visited pushes one edit.
\<close>

function functionBodyLoop ::
  "env \<Rightarrow> string \<Rightarrow> variable list \<Rightarrow> text_document \<Rightarrow> text_edit list \<Rightarrow> cursor
   \<Rightarrow> error + text_edit list" where
  "functionBodyLoop env contractName variables textDocument edits functionBodyCursor =
     (let moved = goToNextNonterminalWithKind FunctionBody functionBodyCursor
      in if fst moved then
           (case node (snd moved) of
              TerminalNode k t \<Rightarrow> Inl AssertionError
            | NonterminalNode k children \<Rightarrow>
                (let functionText = unparse (node (snd moved));
                     replacement = rewriteFunctionText contractName variables functionText;
                     edit = \<lparr>edit_range = slangToVSCodeRange env textDocument (textRange (snd moved)),
                             newText = replacement\<rparr>
                 in functionBodyLoop env contractName variables textDocument (edits @ [edit])
                      (snd moved)))
         else Inr edits)"
  by pat_completeness auto
termination
  by (relation "measure (\<lambda>(env, contractName, variables, textDocument, edits, c).
                  length (cursor_upcoming c))")
     (auto simp: goToNextNonterminalWithKind_def goToNextMatching_upcoming)

declare functionBodyLoop.simps [simp del]

definition editNamespaceVariablesInFunctions ::
  "env \<Rightarrow> cursor \<Rightarrow> string \<Rightarrow> variable list \<Rightarrow> text_document \<Rightarrow> text_edit list
   \<Rightarrow> error + text_edit list" where
  "editNamespaceVariablesInFunctions env contractCursor contractName variables textDocument edits =
     functionBodyLoop env contractName variables textDocument edits (spawn contractCursor)"

definition storageLocationTag :: "env \<Rightarrow> string \<Rightarrow> string \<Rightarrow> string" where
  "storageLocationTag env prefix contractName =
     ''@custom:storage-location erc7201:'' @ getNamespaceId env prefix contractName"

definition getNamespaceStructEndRange ::
  "env \<Rightarrow> cursor \<Rightarrow> string \<Rightarrow> string \<Rightarrow> text_range option" where
  "getNamespaceStructEndRange env contractCursor prefix contractName =
     (let namespaceStructCursor =
            snd (goToNextTerminalWithKind SingleLineNatSpecComment (spawn contractCursor))
      in case node namespaceStructCursor of
           TerminalNode k natspecText \<Rightarrow>
             if includes_str natspecText (storageLocationTag env prefix contractName)
             then (let namespaceStructEndCursor =
                         snd (goToNextTerminalWithKind CloseBrace (spawn contractCursor))
                   in Some (textRange namespaceStructEndCursor))
             else None
         | NonterminalNode k children \<Rightarrow> None)"

definition editNewNamespace ::
  "env \<Rightarrow> string \<Rightarrow> string \<Rightarrow> variable list \<Rightarrow> text_edit list \<Rightarrow> error + text_edit list" where
  "editNewNamespace env prefix contractName variables edits =
     (let namespace =
            \<lparr>ns_contractName = contractName, ns_prefix = prefix, ns_variables = variables\<rparr>
      in case variables of
           [] \<Rightarrow> Inl TypeError
         | v # vs \<Rightarrow>
             Inr (edits
                  @ [\<lparr>edit_range = var_range v, newText = printNamespaceTemplate env namespace\<rparr>]
                  @ map (\<lambda>variable. \<lparr>edit_range = var_range variable, newText = ''''\<rparr>) vs))"

definition editExistingNamespace ::
  "env \<Rightarrow> variable list \<Rightarrow> text_document \<Rightarrow> text_edit list \<Rightarrow> text_range \<Rightarrow> string
   \<Rightarrow> text_edit list" where
  "editExistingNamespace env variables textDocument edits structEndRange indent =
     foldl (\<lambda>edits variable.
              edits
              @ [\<lparr>edit_range = var_range variable, newText = ''''\<rparr>]
              @ [\<lparr>edit_range = slangToVSCodeRange env textDocument structEndRange,
                  newText = indent @ var_content variable @ [CHR 0x0A] @ indent @ ''}''\<rparr>])
       edits variables"

text \<open>
  The \<^verbatim>\<open>while\<close> loop of \<^verbatim>\<open>getMoveAllVariablesToNamespaceQuickFix\<close> over the contract
  definitions ahead of the cursor. It returns the two variables the loop assigns:
  \<^verbatim>\<open>namespaceStructEndRange\<close> and \<^verbatim>\<open>edits\<close>.
\<close>

function contractLoop ::
  "env \<Rightarrow> string \<Rightarrow> string \<Rightarrow> variable list \<Rightarrow> text_document \<Rightarrow> text_edit list \<Rightarrow> cursor
   \<Rightarrow> error + (text_range option \<times> text_edit list)" where
  "contractLoop env prefix contractName variables textDocument edits cursor =
     (let moved = goToNextNonterminalWithKind ContractDefinition cursor
      in if fst moved then
           (let contractCursor = spawn (snd moved);
                cursorNode = node contractCursor
            in case cursorNode of
                 TerminalNode k t \<Rightarrow> Inl AssertionError
               | NonterminalNode k children \<Rightarrow>
                   if \<not> isValid (parse env ContractDefinition (unparse cursorNode))
                   then contractLoop env prefix contractName variables textDocument edits
                          (snd moved)
                   else if contractDefinitionName env cursorNode \<noteq> contractName
                   then contractLoop env prefix contractName variables textDocument edits
                          (snd moved)
                   else (case editNamespaceVariablesInFunctions env contractCursor contractName
                                 variables textDocument edits of
                           Inl e \<Rightarrow> Inl e
                         | Inr edits' \<Rightarrow>
                             Inr (getNamespaceStructEndRange env contractCursor prefix
                                    contractName, edits')))
         else Inr (None, edits))"
  by pat_completeness auto
termination
  by (relation "measure (\<lambda>(env, prefix, contractName, variables, textDocument, edits, c).
                  length (cursor_upcoming c))")
     (auto simp: goToNextNonterminalWithKind_def goToNextMatching_upcoming)

declare contractLoop.simps [simp del]

definition getMoveAllVariablesToNamespaceQuickFix ::
  "env \<Rightarrow> 'd list \<Rightarrow> string \<Rightarrow> string \<Rightarrow> string \<Rightarrow> variable list \<Rightarrow> text_document
   \<Rightarrow> error + 'd code_action option" where
  "getMoveAllVariablesToNamespaceQuickFix env fixesDiagnostics title prefix contractName
     variables textDocument =
     (let parseOutput = parse env SourceUnit (getText textDocument);
          cursor = createTreeCursor parseOutput
      in case contractLoop env prefix contractName variables textDocument [] cursor of
           Inl e \<Rightarrow> Inl e
         | Inr (namespaceStructEndRange, edits) \<Rightarrow>
             if length variables = 0 then Inr None
             else
               (case (case namespaceStructEndRange of
                        None \<Rightarrow> editNewNamespace env prefix contractName variables edits
                      | Some structEndRange \<Rightarrow>
                          Inr (editExistingNamespace env variables textDocument edits
                                 structEndRange ''    '')) of
                  Inl e \<Rightarrow> Inl e
                | Inr edits' \<Rightarrow>
                    Inr (Some \<lparr>ca_title = title, ca_kind = ''quickfix'',
                               ca_edit = \<lparr>changes = [(uri textDocument, edits')]\<rparr>,
                               ca_diagnostics = fixesDiagnostics\<rparr>)))"

section \<open>Notions the properties are stated with\<close>

text \<open>
  The range of a node found at an offset, the descendants of a node that have a given
  kind (in document order, the node itself left out, as a cursor's search does), and
  the edit the loop of \<^verbatim>\<open>editNamespaceVariablesInFunctions\<close> pushes for one function
  body.
\<close>

definition rangeOf :: "node \<times> nat \<Rightarrow> text_range" where
  "rangeOf e = \<lparr>tr_start = snd e, tr_end = snd e + length (unparse (fst e))\<rparr>"

definition descendantsWithKind :: "nonterminal_kind \<Rightarrow> node \<times> nat \<Rightarrow> (node \<times> nat) list" where
  "descendantsWithKind k e =
     filter (\<lambda>d. isNonterminalWithKind k (fst d)) (tl (preorder (snd e) (fst e)))"

definition functionBodyEdit ::
  "env \<Rightarrow> string \<Rightarrow> variable list \<Rightarrow> text_document \<Rightarrow> node \<times> nat \<Rightarrow> text_edit" where
  "functionBodyEdit env contractName variables textDocument b =
     \<lparr>edit_range = slangToVSCodeRange env textDocument (rangeOf b),
      newText = rewriteFunctionText contractName variables (unparse (fst b))\<rparr>"

text \<open>
  The contract locator, in the words of the specification: among the contract
  definitions of the document, in document order, the first one whose text parses on
  its own and whose name is the contract name.
\<close>

definition isTargetContract :: "env \<Rightarrow> string \<Rightarrow> node \<times> nat \<Rightarrow> bool" where
  "isTargetContract env contractName e =
     (isValid (parse env ContractDefinition (unparse (fst e)))
      \<and> contractDefinitionName env (fst e) = contractName)"

definition contractDefinitions :: "env \<Rightarrow> text_document \<Rightarrow> (node \<times> nat) list" where
  "contractDefinitions env textDocument =
     descendantsWithKind ContractDefinition
       (tree (parse env SourceUnit (getText textDocument)), 0)"

definition locateContract :: "env \<Rightarrow> string \<Rightarrow> text_document \<Rightarrow> (node \<times> nat) option" where
  "locateContract env contractName textDocument =
     find (isTargetContract env contractName) (contractDefinitions env textDocument)"

text \<open>
  What the fix computes from the located contract: the edits of its function bodies,
  and the insertion point of an existing container.
\<close>

definition functionEdits ::
  "env \<Rightarrow> string \<Rightarrow> variable list \<Rightarrow> text_document \<Rightarrow> text_edit list" where
  "functionEdits env contractName variables textDocument =
     (case locateContract env contractName textDocument of
        None \<Rightarrow> []
      | Some e \<Rightarrow> map (functionBodyEdit env contractName variables textDocument)
                    (descendantsWithKind FunctionBody e))"

definition detectContainer ::
  "env \<Rightarrow> string \<Rightarrow> string \<Rightarrow> text_document \<Rightarrow> text_range option" where
  "detectContainer env prefix contractName textDocument =
     (case locateContract env contractName textDocument of
        None \<Rightarrow> None
      | Some e \<Rightarrow> getNamespaceStructEndRange env (cursorAt e) prefix contractName)"

definition quickFix :: "'d list \<Rightarrow> string \<Rightarrow> text_document \<Rightarrow> text_edit list \<Rightarrow> 'd code_action" where
  "quickFix fixesDiagnostics title textDocument edits =
     \<lparr>ca_title = title, ca_kind = ''quickfix'',
      ca_edit = \<lparr>changes = [(uri textDocument, edits)]\<rparr>,
      ca_diagnostics = fixesDiagnostics\<rparr>"

text \<open>
  A function text references a variable when the variable's regular expression has a
  match in it: this is what makes the loop change the text. For a name of letters,
  digits and underscores a match is an occurrence of the name with no word character
  next to it on either side.
\<close>

definition referencesVariable :: "variable \<Rightarrow> string \<Rightarrow> bool" where
  "referencesVariable v functionText = test (variableRegExp (var_name v)) False functionText"

definition referencesAny :: "variable list \<Rightarrow> string \<Rightarrow> bool" where
  "referencesAny variables functionText =
     list_ex (\<lambda>v. referencesVariable v functionText) variables"

definition wordName :: "string \<Rightarrow> bool" where
  "wordName n = (n \<noteq> [] \<and> list_all isWordChar n)"





text \<open>
  Ranges of the editor: one position is before another in reading order; two ranges
  overlap when each starts before the other ends, so two insertions at one point do
  not overlap and two replacements of one character do.
\<close>

definition positionBefore :: "position \<Rightarrow> position \<Rightarrow> bool" where
  "positionBefore p q = (line p < line q \<or> (line p = line q \<and> character p < character q))"

definition rangesOverlap :: "range \<Rightarrow> range \<Rightarrow> bool" where
  "rangesOverlap a b =
     (positionBefore (range_start a) (range_end b) \<and> positionBefore (range_start b) (range_end a))"

fun pairwiseDisjoint :: "range list \<Rightarrow> bool" where
  "pairwiseDisjoint [] = True"
| "pairwiseDisjoint (r # rs) = (list_all (\<lambda>q. \<not> rangesOverlap r q) rs \<and> pairwiseDisjoint rs)"

text \<open>
  The edits of a returned fix, and the texts that the edits of a batch put in place of
  one range, in the order of the batch.
\<close>

fun editsOf :: "error + 'd code_action option \<Rightarrow> text_edit list" where
  "editsOf (Inr (Some action)) = concat (map snd (changes (ca_edit action)))"
| "editsOf (Inr None) = []"
| "editsOf (Inl e) = []"

definition textsReplacing :: "range \<Rightarrow> text_edit list \<Rightarrow> string list" where
  "textsReplacing r edits = map newText (filter (\<lambda>e. edit_range e = r) edits)"

text \<open>
  The terminals of a kind below a node, in document order; and, in the words of the
  specification, the closing delimiter of the container: the detector advances to the
  first documentation comment and from there to the next closing brace.
\<close>

definition terminalsWithKind :: "terminal_kind \<Rightarrow> node \<times> nat \<Rightarrow> (node \<times> nat) list" where
  "terminalsWithKind k e =
     filter (\<lambda>d. isTerminalWithKind k (fst d)) (tl (preorder (snd e) (fst e)))"

definition nextCloseBrace :: "node \<times> nat \<Rightarrow> text_range option" where
  "nextCloseBrace contract =
     (case dropWhile (\<lambda>d. \<not> isTerminalWithKind SingleLineNatSpecComment (fst d))
             (tl (preorder (snd contract) (fst contract))) of
        [] \<Rightarrow> None
      | comment # following \<Rightarrow>
          (case dropWhile (\<lambda>d. \<not> isTerminalWithKind CloseBrace (fst d)) following of
             [] \<Rightarrow> None
           | brace # rest \<Rightarrow> Some (rangeOf brace)))"

section \<open>Example documents\<close>

text \<open>
  Modelled from the spec: \<^verbatim>\<open>slangToVSCodeRange\<close> of \<^verbatim>\<open>./helpers/slang\<close>, which is not
  among the source files; the specification calls it a position-range translator
  mapping internal text offsets to host-displayable coordinates. An offset becomes the
  line and the character within the line at which it stands in the document's text.
\<close>

fun positionAtFrom :: "nat \<Rightarrow> nat \<Rightarrow> string \<Rightarrow> nat \<Rightarrow> position" where
  "positionAtFrom l c s 0 = \<lparr>line = l, character = c\<rparr>"
| "positionAtFrom l c [] (Suc n) = \<lparr>line = l, character = c\<rparr>"
| "positionAtFrom l c (x # xs) (Suc n) =
     (if x = CHR 0x0A then positionAtFrom (Suc l) 0 xs n else positionAtFrom l (Suc c) xs n)"

definition offsetsToRange :: "text_document \<Rightarrow> text_range \<Rightarrow> range" where
  "offsetsToRange textDocument r =
     \<lparr>range_start = positionAtFrom 0 0 (getText textDocument) (tr_start r),
      range_end = positionAtFrom 0 0 (getText textDocument) (tr_end r)\<rparr>"

text \<open>
  An environment to run the fix in: the parser returns a given tree for the document
  and takes a contract's text to be valid unless it holds the character \<^verbatim>\<open>#\<close>; the
  name of a contract definition is its first identifier; the namespace id is
  \<^verbatim>\<open>prefix.ContractName\<close>; the template is a one-line struct.
\<close>

fun firstIdentifier :: "node list \<Rightarrow> string" where
  "firstIdentifier [] = []"
| "firstIdentifier (TerminalNode k t # ns) = (if k = Identifier then t else firstIdentifier ns)"
| "firstIdentifier (NonterminalNode k cs # ns) = firstIdentifier ns"

fun nameOfDefinition :: "node \<Rightarrow> string" where
  "nameOfDefinition (NonterminalNode k children) = firstIdentifier children"
| "nameOfDefinition (TerminalNode k t) = []"

definition exampleTemplate :: "namespace \<Rightarrow> string" where
  "exampleTemplate ns =
     ''struct '' @ ns_contractName ns @ ''Storage {''
     @ concat (map var_content (ns_variables ns)) @ ''}''"

definition exampleEnv :: "node \<Rightarrow> env" where
  "exampleEnv sourceUnit =
     \<lparr>parse = (\<lambda>k t. \<lparr>isValid = \<not> includes_str t ''#'', tree = sourceUnit\<rparr>),
      contractDefinitionName = nameOfDefinition,
      getNamespaceId = (\<lambda>prefix contractName. prefix @ ''.'' @ contractName),
      printNamespaceTemplate = exampleTemplate,
      slangToVSCodeRange = offsetsToRange\<rparr>"

definition documentOf :: "node \<Rightarrow> text_document" where
  "documentOf sourceUnit = \<lparr>uri = ''Box.sol'', getText = unparse sourceUnit\<rparr>"

definition rangeOnLine :: "nat \<Rightarrow> nat \<Rightarrow> range" where
  "rangeOnLine a b =
     \<lparr>range_start = \<lparr>line = 0, character = a\<rparr>, range_end = \<lparr>line = 0, character = b\<rparr>\<rparr>"

definition token :: "string \<Rightarrow> node" where
  "token t = TerminalNode (OtherTerminal ''Token'') t"

definition functionDefinition :: "string \<Rightarrow> string \<Rightarrow> node" where
  "functionDefinition header statements =
     NonterminalNode (OtherNonterminal ''FunctionDefinition'')
       [token header,
        NonterminalNode FunctionBody
          [token ''{'', token statements, TerminalNode CloseBrace ''}'']]"

definition contractDefinition :: "string \<Rightarrow> node list \<Rightarrow> node" where
  "contractDefinition n members =
     NonterminalNode ContractDefinition
       ([token ''contract '', TerminalNode Identifier n, token ''{'']
        @ members @ [TerminalNode CloseBrace ''}''])"

definition structDefinition :: "string \<Rightarrow> node" where
  "structDefinition t =
     NonterminalNode (OtherNonterminal ''StructDefinition'')
       [token t, TerminalNode CloseBrace ''}'']"

definition stateVariable :: "string \<Rightarrow> node" where
  "stateVariable t = NonterminalNode (OtherNonterminal ''StateVariableDefinition'') [token t]"

text \<open>
  \<^verbatim>\<open>contract Box{uint a;address b;function f(){a=1;}function g(){x=2;}}\<close>: two state
  variables, a function that assigns one of them and a function that names neither.
\<close>

definition boxUnit :: node where
  "boxUnit =
     NonterminalNode SourceUnit
       [contractDefinition ''Box''
          [stateVariable ''uint a;'', stateVariable ''address b;'',
           functionDefinition ''function f()'' ''a=1;'',
           functionDefinition ''function g()'' ''x=2;'']]"

definition varA :: variable where
  "varA = \<lparr>var_name = ''a'', var_content = ''uint a;'', var_range = rangeOnLine 13 20\<rparr>"

definition varB :: variable where
  "varB = \<lparr>var_name = ''b'', var_content = ''address b;'', var_range = rangeOnLine 20 30\<rparr>"

text \<open>
  The same contract with a tagged storage struct in front of the variables:
  \<^verbatim>\<open>contract Box{/// @custom:storage-location erc7201:box.Box\<close>, a line break,
  \<^verbatim>\<open>struct BoxStorage{uint x;}uint a;address b;function f(){a=1;}}\<close>.
\<close>

definition taggedComment :: node where
  "taggedComment =
     TerminalNode SingleLineNatSpecComment ''/// @custom:storage-location erc7201:box.Box''"

definition boxWithContainer :: node where
  "boxWithContainer =
     NonterminalNode SourceUnit
       [contractDefinition ''Box''
          [taggedComment, token [CHR 0x0A],
           structDefinition ''struct BoxStorage{uint x;'',
           stateVariable ''uint a;'', stateVariable ''address b;'',
           functionDefinition ''function f()'' ''a=1;'']]"

definition varA2 :: variable where
  "varA2 =
     \<lparr>var_name = ''a'', var_content = ''uint a;'',
      var_range = \<lparr>range_start = \<lparr>line = 1, character = 26\<rparr>,
                   range_end = \<lparr>line = 1, character = 33\<rparr>\<rparr>\<rparr>"

definition varB2 :: variable where
  "varB2 =
     \<lparr>var_name = ''b'', var_content = ''address b;'',
      var_range = \<lparr>range_start = \<lparr>line = 1, character = 33\<rparr>,
                   range_end = \<lparr>line = 1, character = 43\<rparr>\<rparr>\<rparr>"

text \<open>
  A contract whose tagged storage struct comes after an enum:
  \<^verbatim>\<open>contract Box{enum E{A}/// @custom:storage-location erc7201:box.Box\<close>, a line
  break, \<^verbatim>\<open>struct BoxStorage{uint x;}uint a;}\<close>.
\<close>

definition boxWithEnumFirst :: node where
  "boxWithEnumFirst =
     NonterminalNode SourceUnit
       [contractDefinition ''Box''
          [NonterminalNode (OtherNonterminal ''EnumDefinition'')
             [token ''enum E{A'', TerminalNode CloseBrace ''}''],
           taggedComment, token [CHR 0x0A],
           structDefinition ''struct BoxStorage{uint x;'',
           stateVariable ''uint a;'']]"

text \<open>
  Four contract definitions in one document: a \<open>Box\<close> whose text does not parse, a
  \<open>Vault\<close>, and two further contracts named \<open>Box\<close>.
\<close>

definition fourContracts :: node where
  "fourContracts =
     NonterminalNode SourceUnit
       [contractDefinition ''Box'' [token ''#''],
        contractDefinition ''Vault'' [functionDefinition ''function v()'' ''a=0;''],
        contractDefinition ''Box'' [functionDefinition ''function f()'' ''a=1;''],
        contractDefinition ''Box'' [functionDefinition ''function g()'' ''a=2;'']]"

definition brokenBox :: "node \<times> nat" where
  "brokenBox = (contractDefinition ''Box'' [token ''#''], 0)"

definition vault :: "node \<times> nat" where
  "vault = (contractDefinition ''Vault'' [functionDefinition ''function v()'' ''a=0;''], 15)"

definition firstBox :: "node \<times> nat" where
  "firstBox = (contractDefinition ''Box'' [functionDefinition ''function f()'' ''a=1;''], 49)"

definition secondBox :: "node \<times> nat" where
  "secondBox = (contractDefinition ''Box'' [functionDefinition ''function g()'' ''a=2;''], 81)"

definition boxContract :: "node \<times> nat" where
  "boxContract =
     (contractDefinition ''Box''
        [stateVariable ''uint a;'', stateVariable ''address b;'',
         functionDefinition ''function f()'' ''a=1;'',
         functionDefinition ''function g()'' ''x=2;''], 0)"

definition bodyOf :: "string \<Rightarrow> node" where
  "bodyOf statements =
     NonterminalNode FunctionBody [token ''{'', token statements, TerminalNode CloseBrace ''}'']"

definition enumFirstContract :: "node \<times> nat" where
  "enumFirstContract =
     (contractDefinition ''Box''
        [NonterminalNode (OtherNonterminal ''EnumDefinition'')
           [token ''enum E{A'', TerminalNode CloseBrace ''}''],
         taggedComment, token [CHR 0x0A],
         structDefinition ''struct BoxStorage{uint x;'',
         stateVariable ''uint a;''], 0)"

definition containerContract :: "node \<times> nat" where
  "containerContract =
     (contractDefinition ''Box''
        [taggedComment, token [CHR 0x0A],
         structDefinition ''struct BoxStorage{uint x;'',
         stateVariable ''uint a;'', stateVariable ''address b;'',
         functionDefinition ''function f()'' ''a=1;''], 0)"

text \<open>
  The closing brace of the storage struct of \<open>boxWithContainer\<close>, and the fix for its
  two variables.
\<close>

definition closingBrace :: range where
  "closingBrace =
     \<lparr>range_start = \<lparr>line = 1, character = 25\<rparr>, range_end = \<lparr>line = 1, character = 26\<rparr>\<rparr>"

definition containerFix :: "error + unit code_action option" where
  "containerFix =
     getMoveAllVariablesToNamespaceQuickFix (exampleEnv boxWithContainer) [] ''Move'' ''box''
       ''Box'' [varA2, varB2] (documentOf boxWithContainer)"

section \<open>The loops, unrolled\<close>

lemma textRange_cursor: "textRange (c\<lparr>cursor_current := e, cursor_upcoming := es\<rparr>) = rangeOf e"
  by (simp add: textRange_def rangeOf_def node_def)

lemma goToNextMatching_found:
  assumes "\<not> cursor_completed c"
    and "dropWhile (\<lambda>e. \<not> P (fst e)) (cursor_upcoming c) = e # es"
  shows "goToNextMatching P c = (True, c\<lparr>cursor_current := e, cursor_upcoming := es\<rparr>)"
  using assms by (simp add: goToNextMatching_def)

lemma goToNextMatching_none:
  assumes "\<not> cursor_completed c"
    and "dropWhile (\<lambda>e. \<not> P (fst e)) (cursor_upcoming c) = []"
  shows "goToNextMatching P c =
           (False, c\<lparr>cursor_current := cursor_root c, cursor_upcoming := [],
                     cursor_completed := True\<rparr>)"
  using assms by (simp add: goToNextMatching_def del: dropWhile_eq_Nil_conv)

lemma filter_dropWhile_Cons:
  "dropWhile (\<lambda>e. \<not> P e) xs = e # es \<Longrightarrow> filter P xs = e # filter P es"
proof (induction xs)
  case Nil
  then show ?case by simp
next
  case (Cons x xs)
  then show ?case by (cases "P x") auto
qed

lemma filter_dropWhile_Nil:
  "dropWhile (\<lambda>e. \<not> P e) xs = [] \<Longrightarrow> filter P xs = []"
  by (induction xs) (auto split: if_splits)

lemma dropWhile_Cons_holds: "dropWhile (\<lambda>e. \<not> P e) xs = e # es \<Longrightarrow> P e"
  using hd_dropWhile[of "\<lambda>e. \<not> P e" xs] by auto

lemma dropWhile_Cons_shorter: "dropWhile Q xs = e # es \<Longrightarrow> length es < length xs"
  using length_dropWhile_le[of Q xs] by simp

lemma functionBodyLoop_edits:
  "\<not> cursor_completed c \<Longrightarrow>
   functionBodyLoop env contractName variables textDocument edits c =
     Inr (edits @ map (functionBodyEdit env contractName variables textDocument)
                    (filter (\<lambda>d. isNonterminalWithKind FunctionBody (fst d)) (cursor_upcoming c)))"
proof (induction "cursor_upcoming c" arbitrary: c edits rule: length_induct)
  case 1
  let ?P = "isNonterminalWithKind FunctionBody"
  show ?case
  proof (cases "dropWhile (\<lambda>e. \<not> ?P (fst e)) (cursor_upcoming c)")
    case Nil
    then have "filter (\<lambda>d. ?P (fst d)) (cursor_upcoming c) = []"
      by (rule filter_dropWhile_Nil)
    moreover from Nil "1.prems" have "fst (goToNextNonterminalWithKind FunctionBody c) = False"
      by (simp add: goToNextNonterminalWithKind_def goToNextMatching_none)
    ultimately show ?thesis
      by (subst functionBodyLoop.simps) simp
  next
    case (Cons e es)
    then have flt: "filter (\<lambda>d. ?P (fst d)) (cursor_upcoming c) = e # filter (\<lambda>d. ?P (fst d)) es"
      by (rule filter_dropWhile_Cons)
    from Cons have "?P (fst e)"
      by (rule dropWhile_Cons_holds)
    then obtain k children where node_e: "fst e = NonterminalNode k children"
      by (cases "fst e") auto
    let ?c' = "c\<lparr>cursor_current := e, cursor_upcoming := es\<rparr>"
    from Cons "1.prems" have moved: "goToNextNonterminalWithKind FunctionBody c = (True, ?c')"
      by (simp add: goToNextNonterminalWithKind_def goToNextMatching_found)
    from Cons have "length es < length (cursor_upcoming c)"
      by (rule dropWhile_Cons_shorter)
    with "1.hyps" "1.prems" have IH:
      "\<And>edits. functionBodyLoop env contractName variables textDocument edits ?c' =
         Inr (edits @ map (functionBodyEdit env contractName variables textDocument)
                        (filter (\<lambda>d. ?P (fst d)) es))"
      by simp
    show ?thesis
      by (subst functionBodyLoop.simps)
         (simp add: moved node_def node_e IH flt functionBodyEdit_def textRange_cursor Let_def)
  qed
qed

lemma spawn_cursorAt: "spawn (cursorAt e) = cursorAt e"
  by (simp add: spawn_def cursorAt_def)

lemma spawn_moved: "spawn (c\<lparr>cursor_current := e, cursor_upcoming := es\<rparr>) = cursorAt e"
  by (simp add: spawn_def)

lemma editNamespaceVariablesInFunctions_edits:
  "editNamespaceVariablesInFunctions env (cursorAt e) contractName variables textDocument edits =
     Inr (edits @ map (functionBodyEdit env contractName variables textDocument)
                    (descendantsWithKind FunctionBody e))"
proof -
  have "\<not> cursor_completed (cursorAt e)" by (simp add: cursorAt_def)
  then show ?thesis
    unfolding editNamespaceVariablesInFunctions_def spawn_cursorAt descendantsWithKind_def
    by (simp add: functionBodyLoop_edits) (simp add: cursorAt_def)
qed

lemma contractLoop_find:
  "\<not> cursor_completed c \<Longrightarrow>
   contractLoop env prefix contractName variables textDocument edits c =
     (case find (isTargetContract env contractName)
             (filter (\<lambda>d. isNonterminalWithKind ContractDefinition (fst d)) (cursor_upcoming c)) of
        None \<Rightarrow> Inr (None, edits)
      | Some e \<Rightarrow>
          Inr (getNamespaceStructEndRange env (cursorAt e) prefix contractName,
               edits @ map (functionBodyEdit env contractName variables textDocument)
                         (descendantsWithKind FunctionBody e)))"
proof (induction "cursor_upcoming c" arbitrary: c rule: length_induct)
  case 1
  let ?P = "isNonterminalWithKind ContractDefinition"
  show ?case
  proof (cases "dropWhile (\<lambda>e. \<not> ?P (fst e)) (cursor_upcoming c)")
    case Nil
    then have "filter (\<lambda>d. ?P (fst d)) (cursor_upcoming c) = []"
      by (rule filter_dropWhile_Nil)
    moreover from Nil "1.prems"
    have "fst (goToNextNonterminalWithKind ContractDefinition c) = False"
      by (simp add: goToNextNonterminalWithKind_def goToNextMatching_none)
    ultimately show ?thesis
      by (subst contractLoop.simps) simp
  next
    case (Cons e es)
    then have flt: "filter (\<lambda>d. ?P (fst d)) (cursor_upcoming c) = e # filter (\<lambda>d. ?P (fst d)) es"
      by (rule filter_dropWhile_Cons)
    from Cons have "?P (fst e)"
      by (rule dropWhile_Cons_holds)
    then obtain k children where node_e: "fst e = NonterminalNode k children"
      by (cases "fst e") auto
    let ?c' = "c\<lparr>cursor_current := e, cursor_upcoming := es\<rparr>"
    from Cons "1.prems"
    have moved: "goToNextNonterminalWithKind ContractDefinition c = (True, ?c')"
      by (simp add: goToNextNonterminalWithKind_def goToNextMatching_found)
    from Cons have "length es < length (cursor_upcoming c)"
      by (rule dropWhile_Cons_shorter)
    with "1.hyps" "1.prems" have IH:
      "contractLoop env prefix contractName variables textDocument edits ?c' =
         (case find (isTargetContract env contractName) (filter (\<lambda>d. ?P (fst d)) es) of
            None \<Rightarrow> Inr (None, edits)
          | Some e \<Rightarrow>
              Inr (getNamespaceStructEndRange env (cursorAt e) prefix contractName,
                   edits @ map (functionBodyEdit env contractName variables textDocument)
                             (descendantsWithKind FunctionBody e)))"
      by simp
    have node_spawn: "node (cursorAt e) = NonterminalNode k children"
      by (simp add: node_def cursorAt_def node_e)
    show ?thesis
    proof (cases "isTargetContract env contractName e")
      case True
      then show ?thesis
        by (subst contractLoop.simps)
           (simp add: moved spawn_moved node_spawn flt isTargetContract_def node_e
              editNamespaceVariablesInFunctions_edits Let_def)
    next
      case False
      then show ?thesis
        by (subst contractLoop.simps)
           (auto simp add: moved spawn_moved node_spawn flt isTargetContract_def node_e IH
              Let_def)
    qed
  qed
qed

lemma contractLoop_document:
  "contractLoop env prefix contractName variables textDocument []
     (createTreeCursor (parse env SourceUnit (getText textDocument))) =
   Inr (detectContainer env prefix contractName textDocument,
        functionEdits env contractName variables textDocument)"
proof -
  let ?c = "createTreeCursor (parse env SourceUnit (getText textDocument))"
  have "\<not> cursor_completed ?c"
    by (simp add: createTreeCursor_def cursorAt_def)
  moreover have "filter (\<lambda>d. isNonterminalWithKind ContractDefinition (fst d)) (cursor_upcoming ?c)
                 = contractDefinitions env textDocument"
    by (simp add: createTreeCursor_def cursorAt_def contractDefinitions_def
          descendantsWithKind_def)
  ultimately show ?thesis
    by (simp add: contractLoop_find detectContainer_def functionEdits_def locateContract_def
          split: option.split)
qed

text \<open>
  The whole function in one equation: no fix for an empty variable list; otherwise the
  edits of the function bodies of the located contract, followed by the edits of the
  container strategy that the detector selects.
\<close>

lemma getMoveAllVariablesToNamespaceQuickFix_unrolled:
  "getMoveAllVariablesToNamespaceQuickFix env fixesDiagnostics title prefix contractName
     variables textDocument =
   (if variables = [] then Inr None
    else Inr (Some (quickFix fixesDiagnostics title textDocument
      (case detectContainer env prefix contractName textDocument of
         None \<Rightarrow>
           functionEdits env contractName variables textDocument
           @ \<lparr>edit_range = var_range (hd variables),
               newText = printNamespaceTemplate env
                 \<lparr>ns_contractName = contractName, ns_prefix = prefix,
                  ns_variables = variables\<rparr>\<rparr>
             # map (\<lambda>v. \<lparr>edit_range = var_range v, newText = ''''\<rparr>) (tl variables)
       | Some structEndRange \<Rightarrow>
           editExistingNamespace env variables textDocument
             (functionEdits env contractName variables textDocument) structEndRange
             ''    ''))))"
proof (cases variables)
  case Nil
  then show ?thesis
    by (simp add: getMoveAllVariablesToNamespaceQuickFix_def contractLoop_document)
next
  case (Cons v vs)
  then show ?thesis
    by (simp add: getMoveAllVariablesToNamespaceQuickFix_def contractLoop_document
          editNewNamespace_def quickFix_def split: option.split)
qed

lemma find_None_list_ex: "find P xs = None \<longleftrightarrow> \<not> list_ex P xs"
  by (auto simp: find_None_iff list_ex_iff)

lemma find_first:
  "\<not> list_ex P before \<Longrightarrow> P e \<Longrightarrow> find P (before @ e # after) = Some e"
  by (induction before) auto

section \<open>Replacing the references in a function text\<close>

lemma replaceFrom_no_match: "\<not> test re w s \<Longrightarrow> replaceFrom re r w s = s"
proof (induction s arbitrary: w)
  case Nil
  then show ?case by (simp add: replaceFrom.simps)
next
  case (Cons c cs)
  then have "\<not> matchesAt re w (c # cs)" and "replaceFrom re r (isWordChar c) cs = cs"
    by simp_all
  then show ?case by (subst replaceFrom.simps) simp
qed










lemma replaceVariable_unchanged: "\<not> referencesVariable v s \<Longrightarrow> replaceVariable s v = s"
  by (simp add: referencesVariable_def replaceVariable_def replace_def replaceFrom_no_match)





lemma replaceVariables_unchanged:
  "\<not> referencesAny variables s \<Longrightarrow> replaceVariables variables s = s"
  by (induction variables)
     (simp_all add: referencesAny_def replaceVariables_def replaceVariable_unchanged)












lemma rewriteFunctionText_unchanged:
  "\<not> referencesAny variables s \<Longrightarrow> rewriteFunctionText contractName variables s = s"
  by (simp add: rewriteFunctionText_def replaceVariables_unchanged)



lemma editExistingNamespace_append:
  "editExistingNamespace env variables textDocument edits structEndRange indent =
     edits @ editExistingNamespace env variables textDocument [] structEndRange indent"
proof (induction variables arbitrary: edits rule: rev_induct)
  case Nil
  show ?case by (simp add: editExistingNamespace_def)
next
  case (snoc v vs)
  show ?case
    using snoc.IH[of edits] by (simp add: editExistingNamespace_def)
qed

lemma functionEdits_located:
  "locateContract env contractName textDocument = Some contract \<Longrightarrow>
   functionEdits env contractName variables textDocument =
     map (functionBodyEdit env contractName variables textDocument)
       (descendantsWithKind FunctionBody contract)"
  by (simp add: functionEdits_def)

lemma isWordChar_not_dollar: "isWordChar c \<Longrightarrow> c \<noteq> CHR ''$''"
  by (auto simp: isWordChar_def)



lemma startsWith_nextWord: "startsWith s n \<Longrightarrow> n \<noteq> [] \<Longrightarrow> nextWord s = isWordChar (hd n)"
  by (induction s n rule: startsWith.induct) auto




lemma matchesAt_literals:
  "list_all isWordChar n \<Longrightarrow>
   matchesAt (map atomOfChar n @ rest) w s =
     (startsWith s n \<and> matchesAt rest (if n = [] then w else True) (drop (length n) s))"
proof (induction n arbitrary: w s)
  case Nil
  show ?case by simp
next
  case (Cons c cs)
  then have lit: "atomOfChar c = Lit c" and word: "isWordChar c" and rest: "list_all isWordChar cs"
    by (auto simp: atomOfChar_def dest: isWordChar_not_dollar)
  show ?case
  proof (cases s)
    case Nil
    then show ?thesis by (simp add: lit)
  next
    case (Cons d ds)
    then show ?thesis
      using Cons.IH[OF rest, of "isWordChar d" ds] word by (auto simp: lit)
  qed
qed

text \<open>
  For a name of letters, digits and underscores, the regular expression matches at a
  position exactly when the name stands there with no word character before it and
  none after it.
\<close>

lemma matchesAt_wordName:
  assumes "wordName n"
  shows "matchesAt (variableRegExp n) w s =
           (\<not> w \<and> startsWith s n \<and> \<not> nextWord (drop (length n) s))"
proof -
  from assms have n: "n \<noteq> []" "list_all isWordChar n" "isWordChar (hd n)"
    by (auto simp: wordName_def list_all_iff)
  have "matchesAt (variableRegExp n) w s =
          (w \<noteq> nextWord s \<and> startsWith s n \<and> \<not> nextWord (drop (length n) s))"
    using n by (simp add: variableRegExp_def matchesAt_literals)
  also have "\<dots> = (\<not> w \<and> startsWith s n \<and> \<not> nextWord (drop (length n) s))"
    using startsWith_nextWord[of s n] n by auto
  finally show ?thesis .
qed















lemma includes_str_empty: "includes_str s []"
  by (cases s) auto










section \<open>The container strategies and the detector\<close>

lemma editExistingNamespace_concat:
  "editExistingNamespace env variables textDocument edits structEndRange indent =
     edits @ concat (map (\<lambda>v.
       [\<lparr>edit_range = var_range v, newText = ''''\<rparr>,
        \<lparr>edit_range = slangToVSCodeRange env textDocument structEndRange,
         newText = indent @ var_content v @ [CHR 0x0A] @ indent @ ''}''\<rparr>]) variables)"
  by (induction variables rule: rev_induct) (simp_all add: editExistingNamespace_def)

lemma goToNextTerminalWithKind_cursorAt:
  "goToNextTerminalWithKind k (cursorAt e) =
     (case terminalsWithKind k e of
        [] \<Rightarrow> (False, (cursorAt e)\<lparr>cursor_upcoming := [], cursor_completed := True\<rparr>)
      | d # ds \<Rightarrow>
          (True, (cursorAt e)\<lparr>cursor_current := d,
                   cursor_upcoming := tl (dropWhile (\<lambda>d. \<not> isTerminalWithKind k (fst d))
                                            (tl (preorder (snd e) (fst e))))\<rparr>))"
proof (cases "dropWhile (\<lambda>d. \<not> isTerminalWithKind k (fst d)) (tl (preorder (snd e) (fst e)))")
  case Nil
  then have "terminalsWithKind k e = []"
    unfolding terminalsWithKind_def by (rule filter_dropWhile_Nil)
  with Nil show ?thesis
    by (simp add: goToNextTerminalWithKind_def goToNextMatching_def cursorAt_def
          del: dropWhile_eq_Nil_conv)
next
  case (Cons d ds)
  then have "terminalsWithKind k e = d # filter (\<lambda>d. isTerminalWithKind k (fst d)) ds"
    unfolding terminalsWithKind_def by (rule filter_dropWhile_Cons)
  with Cons show ?thesis
    by (simp add: goToNextTerminalWithKind_def goToNextMatching_def cursorAt_def)
qed

lemma terminalsWithKind_terminal:
  "d \<in> set (terminalsWithKind k e) \<Longrightarrow> \<exists>t. fst d = TerminalNode k t"
  by (cases "fst d") (auto simp: terminalsWithKind_def)

lemma getNamespaceStructEndRange_cursorAt:
  assumes "fst contract = NonterminalNode k children"
  shows "getNamespaceStructEndRange env (cursorAt contract) prefix contractName =
     (case terminalsWithKind SingleLineNatSpecComment contract of
        [] \<Rightarrow> None
      | comment # comments \<Rightarrow>
          if includes_str (unparse (fst comment)) (storageLocationTag env prefix contractName)
          then Some (case terminalsWithKind CloseBrace contract of
                       [] \<Rightarrow> rangeOf contract
                     | brace # braces \<Rightarrow> rangeOf brace)
          else None)"
proof (cases "terminalsWithKind SingleLineNatSpecComment contract")
  case Nil
  then show ?thesis
    using assms
    unfolding getNamespaceStructEndRange_def spawn_cursorAt goToNextTerminalWithKind_cursorAt
    by (simp add: node_def cursorAt_def)
next
  case (Cons comment comments)
  then have "comment \<in> set (terminalsWithKind SingleLineNatSpecComment contract)" by simp
  then obtain t where t: "fst comment = TerminalNode SingleLineNatSpecComment t"
    by (auto dest: terminalsWithKind_terminal)
  show ?thesis
  proof (cases "terminalsWithKind CloseBrace contract")
    case Nil
    with Cons t show ?thesis
      unfolding getNamespaceStructEndRange_def spawn_cursorAt goToNextTerminalWithKind_cursorAt
      by (simp add: node_def cursorAt_def textRange_def rangeOf_def)
  next
    case brace: (Cons brace braces)
    with Cons t show ?thesis
      unfolding getNamespaceStructEndRange_def spawn_cursorAt goToNextTerminalWithKind_cursorAt
      by (simp add: node_def cursorAt_def textRange_def rangeOf_def)
  qed
qed

section \<open>Properties\<close>

text \<open>
  C9. For every input whose candidate variable list is empty,
  \<^verbatim>\<open>getMoveAllVariablesToNamespaceQuickFix\<close> returns no fix, whatever the document
  holds: the loops raise no error on the way, and the early return comes before any
  container edit is built.
\<close>

theorem empty_variable_list_yields_no_fix:
  "getMoveAllVariablesToNamespaceQuickFix env fixesDiagnostics title prefix contractName []
     textDocument = Inr None"
  by (simp add: getMoveAllVariablesToNamespaceQuickFix_unrolled)

theorem empty_variable_list_yields_no_fix_witness:
  "getMoveAllVariablesToNamespaceQuickFix (exampleEnv boxUnit) ([] :: unit list) ''Move''
     ''box'' ''Box'' [] (documentOf boxUnit) = Inr None"
  by (rule empty_variable_list_yields_no_fix)

text \<open>
  C10. For every input with a non-empty variable list where no contract definition of
  the document is named \<open>contractName\<close>, the function still returns a fix: the
  template at the range of the first variable, a deletion for every other variable,
  and no function-body edit.
\<close>

theorem fix_without_matching_contract:
  assumes "variables \<noteq> []"
    and "\<not> list_ex (\<lambda>e. contractDefinitionName env (fst e) = contractName)
             (contractDefinitions env textDocument)"
  shows "getMoveAllVariablesToNamespaceQuickFix env fixesDiagnostics title prefix contractName
           variables textDocument =
         Inr (Some (quickFix fixesDiagnostics title textDocument
           (\<lparr>edit_range = var_range (hd variables),
              newText = printNamespaceTemplate env
                \<lparr>ns_contractName = contractName, ns_prefix = prefix,
                 ns_variables = variables\<rparr>\<rparr>
            # map (\<lambda>v. \<lparr>edit_range = var_range v, newText = ''''\<rparr>) (tl variables))))"
proof -
  from assms(2) have "\<not> list_ex (isTargetContract env contractName)
                          (contractDefinitions env textDocument)"
    by (auto simp: list_ex_iff isTargetContract_def)
  then have "locateContract env contractName textDocument = None"
    by (simp add: locateContract_def find_None_list_ex)
  then have "detectContainer env prefix contractName textDocument = None"
    and "functionEdits env contractName variables textDocument = []"
    by (simp_all add: detectContainer_def functionEdits_def)
  with assms(1) show ?thesis
    by (simp add: getMoveAllVariablesToNamespaceQuickFix_unrolled)
qed

theorem fix_without_matching_contract_witness:
  "[varA, varB] \<noteq> []
   \<and> \<not> list_ex (\<lambda>e. contractDefinitionName (exampleEnv boxUnit) (fst e) = ''Vault'')
          (contractDefinitions (exampleEnv boxUnit) (documentOf boxUnit))
   \<and> getMoveAllVariablesToNamespaceQuickFix (exampleEnv boxUnit) ([] :: unit list) ''Move''
        ''box'' ''Vault'' [varA, varB] (documentOf boxUnit) =
      Inr (Some (quickFix [] ''Move'' (documentOf boxUnit)
        [\<lparr>edit_range = rangeOnLine 13 20, newText = ''struct VaultStorage {uint a;address b;}''\<rparr>,
         \<lparr>edit_range = rangeOnLine 20 30, newText = ''''\<rparr>]))"
proof -
  have h1: "[varA, varB] \<noteq> []" by simp
  have h2: "\<not> list_ex (\<lambda>e. contractDefinitionName (exampleEnv boxUnit) (fst e) = ''Vault'')
                 (contractDefinitions (exampleEnv boxUnit) (documentOf boxUnit))"
    by code_simp
  have t: "printNamespaceTemplate (exampleEnv boxUnit)
             \<lparr>ns_contractName = ''Vault'', ns_prefix = ''box'', ns_variables = [varA, varB]\<rparr>
           = ''struct VaultStorage {uint a;address b;}''"
    by code_simp
  have r: "var_range varA = rangeOnLine 13 20" "var_range varB = rangeOnLine 20 30"
    by (simp_all add: varA_def varB_def)
  from fix_without_matching_contract[OF h1 h2, of "[] :: unit list" "''Move''" "''box''"]
  show ?thesis
    using h1 h2 by (simp add: t r)
qed

text \<open>
  C5. When no existing container is detected and the variable list is not empty, the
  container edits of the fix are exactly one edit that replaces the range of the first
  variable by the printed namespace template and, for every other variable in order,
  exactly one edit that replaces its range by the empty string. They follow the edits
  of the function bodies in the edit list.
\<close>

theorem new_container_edits:
  assumes "variables \<noteq> []"
    and "detectContainer env prefix contractName textDocument = None"
  shows "getMoveAllVariablesToNamespaceQuickFix env fixesDiagnostics title prefix contractName
           variables textDocument =
         Inr (Some (quickFix fixesDiagnostics title textDocument
           (functionEdits env contractName variables textDocument
            @ \<lparr>edit_range = var_range (hd variables),
                newText = printNamespaceTemplate env
                  \<lparr>ns_contractName = contractName, ns_prefix = prefix,
                   ns_variables = variables\<rparr>\<rparr>
              # map (\<lambda>v. \<lparr>edit_range = var_range v, newText = ''''\<rparr>) (tl variables))))"
  using assms by (simp add: getMoveAllVariablesToNamespaceQuickFix_unrolled)

theorem new_container_edits_witness:
  "[varA, varB] \<noteq> []
   \<and> detectContainer (exampleEnv boxUnit) ''box'' ''Box'' (documentOf boxUnit) = None
   \<and> getMoveAllVariablesToNamespaceQuickFix (exampleEnv boxUnit) ([] :: unit list) ''Move''
        ''box'' ''Box'' [varA, varB] (documentOf boxUnit) =
      Inr (Some (quickFix [] ''Move'' (documentOf boxUnit)
        [\<lparr>edit_range = rangeOnLine 42 48,
           newText = ''{'' @ [CHR 0x0A] @ ''        BoxStorage storage $ = _getBoxStorage();''
                     @ [CHR 0x0A] @ ''$.a=1;}''\<rparr>,
         \<lparr>edit_range = rangeOnLine 60 66, newText = ''{x=2;}''\<rparr>,
         \<lparr>edit_range = rangeOnLine 13 20, newText = ''struct BoxStorage {uint a;address b;}''\<rparr>,
         \<lparr>edit_range = rangeOnLine 20 30, newText = ''''\<rparr>]))"
proof -
  have h1: "[varA, varB] \<noteq> []" by simp
  have h2: "detectContainer (exampleEnv boxUnit) ''box'' ''Box'' (documentOf boxUnit) = None"
    by code_simp
  have f: "functionEdits (exampleEnv boxUnit) ''Box'' [varA, varB] (documentOf boxUnit) =
           [\<lparr>edit_range = rangeOnLine 42 48,
              newText = ''{'' @ [CHR 0x0A] @ ''        BoxStorage storage $ = _getBoxStorage();''
                        @ [CHR 0x0A] @ ''$.a=1;}''\<rparr>,
            \<lparr>edit_range = rangeOnLine 60 66, newText = ''{x=2;}''\<rparr>]"
    by code_simp
  have t: "printNamespaceTemplate (exampleEnv boxUnit)
             \<lparr>ns_contractName = ''Box'', ns_prefix = ''box'', ns_variables = [varA, varB]\<rparr>
           = ''struct BoxStorage {uint a;address b;}''"
    by code_simp
  have r: "var_range varA = rangeOnLine 13 20" "var_range varB = rangeOnLine 20 30"
    by (simp_all add: varA_def varB_def)
  from new_container_edits[OF h1 h2, of "[] :: unit list" "''Move''"]
  show ?thesis
    using h1 h2 by (simp add: f t r)
qed

text \<open>
  C8. The contract locator skips a contract definition whose text does not parse on its
  own or whose name differs, and stops at the first one that parses and has the name
  \<open>contractName\<close>: the loop then processes that node whatever contract definitions
  come after it. When no contract definition parses and has the name, nothing is
  located: the loop leaves no insertion point and no edit.
\<close>

theorem contract_locator:
  "(\<forall>before e after.
      contractDefinitions env textDocument = before @ e # after
      \<and> \<not> list_ex (isTargetContract env contractName) before
      \<and> isTargetContract env contractName e
      \<longrightarrow> contractLoop env prefix contractName variables textDocument []
            (createTreeCursor (parse env SourceUnit (getText textDocument))) =
          Inr (getNamespaceStructEndRange env (cursorAt e) prefix contractName,
               map (functionBodyEdit env contractName variables textDocument)
                 (descendantsWithKind FunctionBody e)))
   \<and> (\<not> list_ex (isTargetContract env contractName) (contractDefinitions env textDocument)
      \<longrightarrow> contractLoop env prefix contractName variables textDocument []
            (createTreeCursor (parse env SourceUnit (getText textDocument))) =
          Inr (None, []))"
proof (intro conjI allI impI)
  fix before e after
  assume "contractDefinitions env textDocument = before @ e # after
          \<and> \<not> list_ex (isTargetContract env contractName) before
          \<and> isTargetContract env contractName e"
  then have "locateContract env contractName textDocument = Some e"
    by (simp add: locateContract_def find_first)
  then show "contractLoop env prefix contractName variables textDocument []
               (createTreeCursor (parse env SourceUnit (getText textDocument))) =
             Inr (getNamespaceStructEndRange env (cursorAt e) prefix contractName,
                  map (functionBodyEdit env contractName variables textDocument)
                    (descendantsWithKind FunctionBody e))"
    by (simp add: contractLoop_document detectContainer_def functionEdits_def)
next
  assume "\<not> list_ex (isTargetContract env contractName) (contractDefinitions env textDocument)"
  then have "locateContract env contractName textDocument = None"
    by (simp add: locateContract_def find_None_list_ex)
  then show "contractLoop env prefix contractName variables textDocument []
               (createTreeCursor (parse env SourceUnit (getText textDocument))) =
             Inr (None, [])"
    by (simp add: contractLoop_document detectContainer_def functionEdits_def)
qed

theorem contract_locator_witness:
  "contractDefinitions (exampleEnv fourContracts) (documentOf fourContracts)
     = [brokenBox, vault] @ firstBox # [secondBox]
   \<and> \<not> isValid (parse (exampleEnv fourContracts) ContractDefinition (unparse (fst brokenBox)))
   \<and> contractDefinitionName (exampleEnv fourContracts) (fst vault) = ''Vault''
   \<and> isTargetContract (exampleEnv fourContracts) ''Box'' firstBox
   \<and> isTargetContract (exampleEnv fourContracts) ''Box'' secondBox
   \<and> contractLoop (exampleEnv fourContracts) ''box'' ''Box'' [varA] (documentOf fourContracts) []
        (createTreeCursor (parse (exampleEnv fourContracts) SourceUnit
           (getText (documentOf fourContracts)))) =
      Inr (None,
           [\<lparr>edit_range = rangeOnLine 74 80,
              newText = ''{'' @ [CHR 0x0A] @ ''        BoxStorage storage $ = _getBoxStorage();''
                        @ [CHR 0x0A] @ ''$.a=1;}''\<rparr>])
   \<and> \<not> list_ex (isTargetContract (exampleEnv fourContracts) ''Safe'')
          (contractDefinitions (exampleEnv fourContracts) (documentOf fourContracts))
   \<and> contractLoop (exampleEnv fourContracts) ''box'' ''Safe'' [varA] (documentOf fourContracts) []
        (createTreeCursor (parse (exampleEnv fourContracts) SourceUnit
           (getText (documentOf fourContracts)))) =
      Inr (None, [])"
proof -
  let ?env = "exampleEnv fourContracts" and ?doc = "documentOf fourContracts"
  have d: "contractDefinitions ?env ?doc = [brokenBox, vault] @ firstBox # [secondBox]"
    by code_simp
  have b: "\<not> isValid (parse ?env ContractDefinition (unparse (fst brokenBox)))"
    by code_simp
  have v: "contractDefinitionName ?env (fst vault) = ''Vault''"
    by code_simp
  have s: "\<not> list_ex (isTargetContract ?env ''Box'') [brokenBox, vault]"
    by code_simp
  have t1: "isTargetContract ?env ''Box'' firstBox"
    by code_simp
  have t2: "isTargetContract ?env ''Box'' secondBox"
    by code_simp
  have n: "\<not> list_ex (isTargetContract ?env ''Safe'') (contractDefinitions ?env ?doc)"
    by code_simp
  have r: "getNamespaceStructEndRange ?env (cursorAt firstBox) ''box'' ''Box'' = None"
    by code_simp
  have f: "map (functionBodyEdit ?env ''Box'' [varA] ?doc) (descendantsWithKind FunctionBody firstBox)
           = [\<lparr>edit_range = rangeOnLine 74 80,
                newText = ''{'' @ [CHR 0x0A] @ ''        BoxStorage storage $ = _getBoxStorage();''
                          @ [CHR 0x0A] @ ''$.a=1;}''\<rparr>]"
    by code_simp
  note loc = contract_locator[of ?env ?doc]
  from loc[of "''Box''" "''box''" "[varA]"] d s t1
  have "contractLoop ?env ''box'' ''Box'' [varA] ?doc []
          (createTreeCursor (parse ?env SourceUnit (getText ?doc))) =
        Inr (getNamespaceStructEndRange ?env (cursorAt firstBox) ''box'' ''Box'',
             map (functionBodyEdit ?env ''Box'' [varA] ?doc)
               (descendantsWithKind FunctionBody firstBox))"
    by blast
  moreover from loc[of "''Safe''" "''box''" "[varA]"] n
  have "contractLoop ?env ''box'' ''Safe'' [varA] ?doc []
          (createTreeCursor (parse ?env SourceUnit (getText ?doc))) = Inr (None, [])"
    by blast
  ultimately show ?thesis
    using d b v t1 t2 n by (simp only: r f simp_thms)
qed


text \<open>
  C2, as amended. For every function body of the located contract the edit list of the
  fix holds one edit, which replaces the range of the body: the edit list starts with
  these edits, one per body in document order. For a body in which no variable's
  regular expression has a match, the new text of its edit is the text of the body, so
  applying the edit changes nothing.
\<close>

theorem function_body_edits:
  assumes "variables \<noteq> []"
    and "locateContract env contractName textDocument = Some contract"
  shows "(\<exists>containerEdits.
            getMoveAllVariablesToNamespaceQuickFix env fixesDiagnostics title prefix
              contractName variables textDocument =
            Inr (Some (quickFix fixesDiagnostics title textDocument
              (map (functionBodyEdit env contractName variables textDocument)
                 (descendantsWithKind FunctionBody contract)
               @ containerEdits))))
         \<and> (\<forall>b \<in> set (descendantsWithKind FunctionBody contract).
               \<not> referencesAny variables (unparse (fst b)) \<longrightarrow>
               functionBodyEdit env contractName variables textDocument b =
                 \<lparr>edit_range = slangToVSCodeRange env textDocument (rangeOf b),
                  newText = unparse (fst b)\<rparr>)"
proof (intro conjI ballI impI)
  show "\<exists>containerEdits.
          getMoveAllVariablesToNamespaceQuickFix env fixesDiagnostics title prefix
            contractName variables textDocument =
          Inr (Some (quickFix fixesDiagnostics title textDocument
            (map (functionBodyEdit env contractName variables textDocument)
               (descendantsWithKind FunctionBody contract)
             @ containerEdits)))"
  proof (cases "detectContainer env prefix contractName textDocument")
    case None
    with assms show ?thesis
      by (intro exI) (simp add: getMoveAllVariablesToNamespaceQuickFix_unrolled functionEdits_located)
  next
    case (Some structEndRange)
    with assms show ?thesis
      using editExistingNamespace_append[of env variables textDocument
          "functionEdits env contractName variables textDocument" structEndRange "''    ''"]
      by (intro exI) (simp add: getMoveAllVariablesToNamespaceQuickFix_unrolled functionEdits_located)
  qed
next
  fix b :: "node \<times> nat"
  assume "\<not> referencesAny variables (unparse (fst b))"
  then show "functionBodyEdit env contractName variables textDocument b =
               \<lparr>edit_range = slangToVSCodeRange env textDocument (rangeOf b),
                newText = unparse (fst b)\<rparr>"
    by (simp add: functionBodyEdit_def rewriteFunctionText_unchanged)
qed

theorem function_body_edits_witness:
  "[varA, varB] \<noteq> []
   \<and> locateContract (exampleEnv boxUnit) ''Box'' (documentOf boxUnit) = Some boxContract
   \<and> descendantsWithKind FunctionBody boxContract = [(bodyOf ''a=1;'', 42), (bodyOf ''x=2;'', 60)]
   \<and> \<not> referencesAny [varA, varB] (unparse (bodyOf ''x=2;''))
   \<and> functionBodyEdit (exampleEnv boxUnit) ''Box'' [varA, varB] (documentOf boxUnit)
        (bodyOf ''x=2;'', 60) =
      \<lparr>edit_range = rangeOnLine 60 66, newText = ''{x=2;}''\<rparr>
   \<and> take 2 (snd (hd (changes (ca_edit (the (projr
        (getMoveAllVariablesToNamespaceQuickFix (exampleEnv boxUnit) ([] :: unit list) ''Move''
           ''box'' ''Box'' [varA, varB] (documentOf boxUnit)))))))) =
      map (functionBodyEdit (exampleEnv boxUnit) ''Box'' [varA, varB] (documentOf boxUnit))
        [(bodyOf ''a=1;'', 42), (bodyOf ''x=2;'', 60)]"
proof -
  let ?env = "exampleEnv boxUnit" and ?doc = "documentOf boxUnit"
  have h1: "[varA, varB] \<noteq> []" by simp
  have h2: "locateContract ?env ''Box'' ?doc = Some boxContract" by code_simp
  have bodies: "descendantsWithKind FunctionBody boxContract
                = [(bodyOf ''a=1;'', 42), (bodyOf ''x=2;'', 60)]"
    by code_simp
  have quiet: "\<not> referencesAny [varA, varB] (unparse (bodyOf ''x=2;''))" by code_simp
  have r: "slangToVSCodeRange ?env ?doc (rangeOf (bodyOf ''x=2;'', 60)) = rangeOnLine 60 66"
    by code_simp
  have u: "unparse (bodyOf ''x=2;'') = ''{x=2;}''" by code_simp
  note edits = function_body_edits[OF h1 h2, of "[] :: unit list" "''Move''" "''box''"]
  from edits bodies quiet
  have "functionBodyEdit ?env ''Box'' [varA, varB] ?doc (bodyOf ''x=2;'', 60) =
          \<lparr>edit_range = slangToVSCodeRange ?env ?doc (rangeOf (bodyOf ''x=2;'', 60)),
           newText = unparse (bodyOf ''x=2;'')\<rparr>"
    by simp
  moreover from edits obtain containerEdits where
    "getMoveAllVariablesToNamespaceQuickFix ?env ([] :: unit list) ''Move'' ''box'' ''Box''
       [varA, varB] ?doc =
     Inr (Some (quickFix [] ''Move'' ?doc
       (map (functionBodyEdit ?env ''Box'' [varA, varB] ?doc)
          (descendantsWithKind FunctionBody boxContract) @ containerEdits)))"
    by blast
  ultimately show ?thesis
    using h1 h2 bodies quiet by (simp add: r u quickFix_def)
qed

text \<open>
  C2 as stated fails: the body of \<open>g\<close> in \<^verbatim>\<open>contract Box\<close> names neither variable,
  and the fix holds an edit that replaces its range, columns 60 to 66, by its own text.
\<close>

theorem unchanged_body_edit_counterexample:
  "locateContract (exampleEnv boxUnit) ''Box'' (documentOf boxUnit) = Some boxContract
   \<and> (bodyOf ''x=2;'', 60) \<in> set (descendantsWithKind FunctionBody boxContract)
   \<and> \<not> referencesAny [varA, varB] (unparse (bodyOf ''x=2;''))
   \<and> slangToVSCodeRange (exampleEnv boxUnit) (documentOf boxUnit)
        (rangeOf (bodyOf ''x=2;'', 60)) = rangeOnLine 60 66
   \<and> getMoveAllVariablesToNamespaceQuickFix (exampleEnv boxUnit) ([] :: unit list) ''Move''
        ''box'' ''Box'' [varA, varB] (documentOf boxUnit) =
      Inr (Some (quickFix [] ''Move'' (documentOf boxUnit)
        [\<lparr>edit_range = rangeOnLine 42 48,
           newText = ''{'' @ [CHR 0x0A] @ ''        BoxStorage storage $ = _getBoxStorage();''
                     @ [CHR 0x0A] @ ''$.a=1;}''\<rparr>,
         \<lparr>edit_range = rangeOnLine 60 66, newText = ''{x=2;}''\<rparr>,
         \<lparr>edit_range = rangeOnLine 13 20, newText = ''struct BoxStorage {uint a;address b;}''\<rparr>,
         \<lparr>edit_range = rangeOnLine 20 30, newText = ''''\<rparr>]))"
  by code_simp









text \<open>
  C3 fails on the code. With an existing container and the two variables \<open>a\<close> and
  \<open>b\<close>, \<^verbatim>\<open>editExistingNamespace\<close> pushes one insertion per variable, and both carry
  the range of the closing brace of the struct, line 1, columns 25 to 26. The range
  holds one character, so the two edits overlap: the ranges of the batch are not
  pairwise disjoint.
\<close>

theorem insertions_overlap:
  "detectContainer (exampleEnv boxWithContainer) ''box'' ''Box'' (documentOf boxWithContainer)
     = Some \<lparr>tr_start = 83, tr_end = 84\<rparr>
   \<and> map edit_range (editsOf containerFix) =
       [\<lparr>range_start = \<lparr>line = 1, character = 55\<rparr>, range_end = \<lparr>line = 1, character = 61\<rparr>\<rparr>,
        var_range varA2, closingBrace, var_range varB2, closingBrace]
   \<and> rangesOverlap closingBrace closingBrace
   \<and> \<not> pairwiseDisjoint (map edit_range (editsOf containerFix))"
  by code_simp

text \<open>
  C4 fails on the code in its second half. In a contract whose tagged storage struct
  comes after an enum, the first documentation comment carries the tag, so an
  insertion point is returned; but the search for the closing brace starts again at
  the contract, and the range returned, 21 to 22, is the closing brace of the enum.
  The closing brace that follows the comment, the one of the container, is at 92 to 93.
\<close>

theorem insertion_point_at_first_brace:
  "locateContract (exampleEnv boxWithEnumFirst) ''Box'' (documentOf boxWithEnumFirst)
     = Some enumFirstContract
   \<and> map (\<lambda>d. (unparse (fst d), snd d)) (terminalsWithKind SingleLineNatSpecComment enumFirstContract)
     = [(''/// @custom:storage-location erc7201:box.Box'', 22)]
   \<and> map rangeOf (terminalsWithKind CloseBrace enumFirstContract)
     = [\<lparr>tr_start = 21, tr_end = 22\<rparr>, \<lparr>tr_start = 92, tr_end = 93\<rparr>,
        \<lparr>tr_start = 100, tr_end = 101\<rparr>]
   \<and> nextCloseBrace enumFirstContract = Some \<lparr>tr_start = 92, tr_end = 93\<rparr>
   \<and> getNamespaceStructEndRange (exampleEnv boxWithEnumFirst) (cursorAt enumFirstContract)
       ''box'' ''Box'' = Some \<lparr>tr_start = 21, tr_end = 22\<rparr>
   \<and> detectContainer (exampleEnv boxWithEnumFirst) ''box'' ''Box'' (documentOf boxWithEnumFirst)
     = Some \<lparr>tr_start = 21, tr_end = 22\<rparr>"
  by code_simp

text \<open>
  C6 fails on the code for two variables. Every variable's range is replaced by the
  empty text and every variable adds its declaration at the insertion point, in
  declaration order; but each insertion replaces the closing brace of the struct and
  ends with a closing brace of its own. The texts put in place of the one brace, read
  in the order of the batch, close the struct after the first declaration and leave
  the second one outside it.
\<close>

theorem insertions_close_the_container_twice:
  "editsOf containerFix =
     [\<lparr>edit_range = \<lparr>range_start = \<lparr>line = 1, character = 55\<rparr>,
                     range_end = \<lparr>line = 1, character = 61\<rparr>\<rparr>,
        newText = ''{'' @ [CHR 0x0A] @ ''        BoxStorage storage $ = _getBoxStorage();''
                  @ [CHR 0x0A] @ ''$.a=1;}''\<rparr>,
      \<lparr>edit_range = var_range varA2, newText = ''''\<rparr>,
      \<lparr>edit_range = closingBrace, newText = ''    uint a;'' @ [CHR 0x0A] @ ''    }''\<rparr>,
      \<lparr>edit_range = var_range varB2, newText = ''''\<rparr>,
      \<lparr>edit_range = closingBrace, newText = ''    address b;'' @ [CHR 0x0A] @ ''    }''\<rparr>]
   \<and> concat (textsReplacing closingBrace (editsOf containerFix)) =
       ''    uint a;'' @ [CHR 0x0A] @ ''    }'' @ ''    address b;'' @ [CHR 0x0A] @ ''    }''"
  by code_simp

section \<open>Further properties\<close>

text \<open>
  X1. The detector on a contract node: no insertion point without a documentation comment
  or when the first one does not contain the tag; otherwise the range of the first
  closing brace below the contract, in document order, or the range of the contract
  when it has none.
\<close>

theorem detector_result:
  assumes "fst contract = NonterminalNode k children"
  shows "getNamespaceStructEndRange env (cursorAt contract) prefix contractName =
     (case terminalsWithKind SingleLineNatSpecComment contract of
        [] \<Rightarrow> None
      | comment # comments \<Rightarrow>
          if includes_str (unparse (fst comment)) (storageLocationTag env prefix contractName)
          then Some (case terminalsWithKind CloseBrace contract of
                       [] \<Rightarrow> rangeOf contract
                     | brace # braces \<Rightarrow> rangeOf brace)
          else None)"
  using assms by (rule getNamespaceStructEndRange_cursorAt)

theorem detector_result_witness:
  "fst containerContract =
     NonterminalNode ContractDefinition
       ([token ''contract '', TerminalNode Identifier ''Box'', token ''{'']
        @ [taggedComment, token [CHR 0x0A], structDefinition ''struct BoxStorage{uint x;'',
           stateVariable ''uint a;'', stateVariable ''address b;'',
           functionDefinition ''function f()'' ''a=1;'']
        @ [TerminalNode CloseBrace ''}''])
   \<and> getNamespaceStructEndRange (exampleEnv boxWithContainer) (cursorAt containerContract)
       ''box'' ''Box'' = Some \<lparr>tr_start = 83, tr_end = 84\<rparr>
   \<and> getNamespaceStructEndRange (exampleEnv boxWithContainer) (cursorAt containerContract)
       ''box'' ''Vault'' = None"
proof -
  let ?env = "exampleEnv boxWithContainer"
  have n: "fst containerContract =
     NonterminalNode ContractDefinition
       ([token ''contract '', TerminalNode Identifier ''Box'', token ''{'']
        @ [taggedComment, token [CHR 0x0A], structDefinition ''struct BoxStorage{uint x;'',
           stateVariable ''uint a;'', stateVariable ''address b;'',
           functionDefinition ''function f()'' ''a=1;'']
        @ [TerminalNode CloseBrace ''}''])"
    by (simp add: containerContract_def contractDefinition_def)
  have box: "(case terminalsWithKind SingleLineNatSpecComment containerContract of
        [] \<Rightarrow> None
      | comment # comments \<Rightarrow>
          if includes_str (unparse (fst comment)) (storageLocationTag ?env ''box'' ''Box'')
          then Some (case terminalsWithKind CloseBrace containerContract of
                       [] \<Rightarrow> rangeOf containerContract
                     | brace # braces \<Rightarrow> rangeOf brace)
          else None) = Some \<lparr>tr_start = 83, tr_end = 84\<rparr>"
    by code_simp
  have vault: "(case terminalsWithKind SingleLineNatSpecComment containerContract of
        [] \<Rightarrow> None
      | comment # comments \<Rightarrow>
          if includes_str (unparse (fst comment)) (storageLocationTag ?env ''box'' ''Vault'')
          then Some (case terminalsWithKind CloseBrace containerContract of
                       [] \<Rightarrow> rangeOf containerContract
                     | brace # braces \<Rightarrow> rangeOf brace)
          else None) = None"
    by code_simp
  from detector_result[OF n, of ?env "''box''" "''Box''"] box
  have "getNamespaceStructEndRange ?env (cursorAt containerContract) ''box'' ''Box''
        = Some \<lparr>tr_start = 83, tr_end = 84\<rparr>"
    by (rule trans)
  moreover from detector_result[OF n, of ?env "''box''" "''Vault''"] vault
  have "getNamespaceStructEndRange ?env (cursorAt containerContract) ''box'' ''Vault'' = None"
    by (rule trans)
  ultimately show ?thesis
    using n by blast
qed

text \<open>
  X2. With an existing container the edit list is the function-body edits followed, for
  every variable in declaration order, by the deletion of its range and an insertion
  at the insertion point of the declaration, indented, and a closing line.
\<close>

theorem existing_container_edits:
  assumes "variables \<noteq> []"
    and "detectContainer env prefix contractName textDocument = Some structEndRange"
  shows "getMoveAllVariablesToNamespaceQuickFix env fixesDiagnostics title prefix contractName
           variables textDocument =
         Inr (Some (quickFix fixesDiagnostics title textDocument
           (functionEdits env contractName variables textDocument
            @ concat (map (\<lambda>v.
                [\<lparr>edit_range = var_range v, newText = ''''\<rparr>,
                 \<lparr>edit_range = slangToVSCodeRange env textDocument structEndRange,
                  newText = ''    '' @ var_content v @ [CHR 0x0A] @ ''    }''\<rparr>]) variables))))"
  using assms
  by (simp add: getMoveAllVariablesToNamespaceQuickFix_unrolled editExistingNamespace_concat)

theorem existing_container_edits_witness:
  "[varA2] \<noteq> []
   \<and> detectContainer (exampleEnv boxWithContainer) ''box'' ''Box'' (documentOf boxWithContainer)
       = Some \<lparr>tr_start = 83, tr_end = 84\<rparr>
   \<and> getMoveAllVariablesToNamespaceQuickFix (exampleEnv boxWithContainer) ([] :: unit list)
        ''Move'' ''box'' ''Box'' [varA2] (documentOf boxWithContainer) =
      Inr (Some (quickFix [] ''Move'' (documentOf boxWithContainer)
        [\<lparr>edit_range = \<lparr>range_start = \<lparr>line = 1, character = 55\<rparr>,
                        range_end = \<lparr>line = 1, character = 61\<rparr>\<rparr>,
           newText = ''{'' @ [CHR 0x0A] @ ''        BoxStorage storage $ = _getBoxStorage();''
                     @ [CHR 0x0A] @ ''$.a=1;}''\<rparr>,
         \<lparr>edit_range = var_range varA2, newText = ''''\<rparr>,
         \<lparr>edit_range = closingBrace, newText = ''    uint a;'' @ [CHR 0x0A] @ ''    }''\<rparr>]))"
proof -
  let ?env = "exampleEnv boxWithContainer" and ?doc = "documentOf boxWithContainer"
  have h1: "[varA2] \<noteq> []" by simp
  have h2: "detectContainer ?env ''box'' ''Box'' ?doc = Some \<lparr>tr_start = 83, tr_end = 84\<rparr>"
    by code_simp
  have f: "functionEdits ?env ''Box'' [varA2] ?doc =
           [\<lparr>edit_range = \<lparr>range_start = \<lparr>line = 1, character = 55\<rparr>,
                           range_end = \<lparr>line = 1, character = 61\<rparr>\<rparr>,
              newText = ''{'' @ [CHR 0x0A] @ ''        BoxStorage storage $ = _getBoxStorage();''
                        @ [CHR 0x0A] @ ''$.a=1;}''\<rparr>]"
    by code_simp
  have r: "slangToVSCodeRange ?env ?doc \<lparr>tr_start = 83, tr_end = 84\<rparr> = closingBrace"
    by code_simp
  have c: "var_content varA2 = ''uint a;''"
    by (simp add: varA2_def)
  from existing_container_edits[OF h1 h2, of "[] :: unit list" "''Move''"]
  show ?thesis
    using h1 h2 by (simp add: f r c)
qed

text \<open>
  X3. For a name of letters, digits and underscores, the regular expression of the fix
  matches at a position exactly when the name stands there with no word character
  before it and none after it: a match is a whole-word occurrence.
\<close>

theorem whole_word_match:
  assumes "wordName n"
  shows "matchesAt (variableRegExp n) prevWord s =
           (\<not> prevWord \<and> startsWith s n \<and> \<not> nextWord (drop (length n) s))"
  using assms by (rule matchesAt_wordName)

theorem whole_word_match_witness:
  "wordName ''a''
   \<and> matchesAt (variableRegExp ''a'') False ''a=1;''
   \<and> \<not> matchesAt (variableRegExp ''a'') False ''ab=1;''
   \<and> \<not> matchesAt (variableRegExp ''a'') True ''a=1;''"
proof -
  have w: "wordName ''a''" by code_simp
  have "startsWith ''a=1;'' ''a''" "\<not> nextWord (drop (length ''a'') ''a=1;'')"
    "nextWord (drop (length ''a'') ''ab=1;'')"
    by code_simp+
  with whole_word_match[OF w, of False "''a=1;''"] whole_word_match[OF w, of False "''ab=1;''"]
    whole_word_match[OF w, of True "''a=1;''"] w
  show ?thesis by blast
qed

text \<open>
  X4. Without an existing container the ranges of the batch are the ranges of the function
  bodies of the located contract, in document order, followed by the ranges of the
  variables, in declaration order: the fix adds no range of its own, so the batch is
  pairwise disjoint exactly when these ranges are.
\<close>

theorem new_container_ranges:
  assumes "variables \<noteq> []"
    and "detectContainer env prefix contractName textDocument = None"
  shows "map edit_range
           (editsOf (getMoveAllVariablesToNamespaceQuickFix env fixesDiagnostics title prefix
              contractName variables textDocument)) =
         map edit_range (functionEdits env contractName variables textDocument)
         @ map var_range variables"
proof -
  from assms(1) obtain v vs where variables: "variables = v # vs"
    by (cases variables) auto
  with assms(2) show ?thesis
    by (simp add: getMoveAllVariablesToNamespaceQuickFix_unrolled quickFix_def comp_def)
qed

theorem new_container_ranges_witness:
  "[varA, varB] \<noteq> []
   \<and> detectContainer (exampleEnv boxUnit) ''box'' ''Box'' (documentOf boxUnit) = None
   \<and> map edit_range
        (editsOf (getMoveAllVariablesToNamespaceQuickFix (exampleEnv boxUnit) ([] :: unit list)
           ''Move'' ''box'' ''Box'' [varA, varB] (documentOf boxUnit))) =
      [rangeOnLine 42 48, rangeOnLine 60 66, rangeOnLine 13 20, rangeOnLine 20 30]
   \<and> pairwiseDisjoint [rangeOnLine 42 48, rangeOnLine 60 66, rangeOnLine 13 20, rangeOnLine 20 30]"
proof -
  let ?env = "exampleEnv boxUnit" and ?doc = "documentOf boxUnit"
  have h1: "[varA, varB] \<noteq> []" by simp
  have h2: "detectContainer ?env ''box'' ''Box'' ?doc = None" by code_simp
  have f: "map edit_range (functionEdits ?env ''Box'' [varA, varB] ?doc) =
             [rangeOnLine 42 48, rangeOnLine 60 66]"
    by code_simp
  have r: "map var_range [varA, varB] = [rangeOnLine 13 20, rangeOnLine 20 30]"
    by (simp add: varA_def varB_def)
  have d: "pairwiseDisjoint
             [rangeOnLine 42 48, rangeOnLine 60 66, rangeOnLine 13 20, rangeOnLine 20 30]"
    by code_simp
  from new_container_ranges[OF h1 h2, of "[] :: unit list" "''Move''"]
  have "map edit_range
          (editsOf (getMoveAllVariablesToNamespaceQuickFix ?env ([] :: unit list) ''Move''
             ''box'' ''Box'' [varA, varB] ?doc)) =
        [rangeOnLine 42 48, rangeOnLine 60 66] @ [rangeOnLine 13 20, rangeOnLine 20 30]"
    by (simp only: f r)
  then show ?thesis
    using h1 h2 d by simp
qed

end
